theory Spec2Isabelle
  imports Complex_Main
begin

section \<open>JavaScript numbers\<close>

text \<open>
  The numbers of \<^verbatim>\<open>src/ol/tilegrid.js\<close> are JavaScript numbers. They are modelled
  as exact reals extended with the three special values of IEEE arithmetic, so that a
  division by zero is what JavaScript makes of it (an infinity or NaN) and not the
  \<open>0\<close> of HOL. Rounding and the sign of zero are not modelled: a finite result is the
  exact real, and a zero divisor counts as \<open>+0\<close>.
\<close>

datatype jsnum = Num real | PosInf | NegInf | NaN

fun js_neg :: "jsnum \<Rightarrow> jsnum" where
  "js_neg (Num x) = Num (- x)"
| "js_neg PosInf = NegInf"
| "js_neg NegInf = PosInf"
| "js_neg NaN = NaN"

fun js_add :: "jsnum \<Rightarrow> jsnum \<Rightarrow> jsnum" where
  "js_add NaN b = NaN"
| "js_add a NaN = NaN"
| "js_add (Num x) (Num y) = Num (x + y)"
| "js_add PosInf NegInf = NaN"
| "js_add NegInf PosInf = NaN"
| "js_add PosInf b = PosInf"
| "js_add NegInf b = NegInf"
| "js_add (Num x) b = b"

definition js_sub :: "jsnum \<Rightarrow> jsnum \<Rightarrow> jsnum" where
  "js_sub a b = js_add a (js_neg b)"

fun js_sign :: "jsnum \<Rightarrow> int" where
  "js_sign (Num x) = (if 0 < x then 1 else if x < 0 then - 1 else 0)"
| "js_sign PosInf = 1"
| "js_sign NegInf = - 1"
| "js_sign NaN = 0"

definition inf_of_sign :: "int \<Rightarrow> jsnum" where
  "inf_of_sign s = (if 0 < s then PosInf else if s < 0 then NegInf else NaN)"

fun js_mul :: "jsnum \<Rightarrow> jsnum \<Rightarrow> jsnum" where
  "js_mul NaN b = NaN"
| "js_mul a NaN = NaN"
| "js_mul (Num x) (Num y) = Num (x * y)"
| "js_mul a b = inf_of_sign (js_sign a * js_sign b)"

fun js_div :: "jsnum \<Rightarrow> jsnum \<Rightarrow> jsnum" where
  "js_div NaN b = NaN"
| "js_div a NaN = NaN"
| "js_div (Num x) (Num y) = (if y = 0 then inf_of_sign (js_sign (Num x)) else Num (x / y))"
| "js_div (Num x) b = Num 0"
| "js_div a (Num y) = inf_of_sign (js_sign a * (if y < 0 then - 1 else 1))"
| "js_div a b = NaN"

text \<open>The comparisons \<^verbatim>\<open><=\<close> and \<^verbatim>\<open><\<close>: false as soon as one side is NaN.\<close>

fun js_le :: "jsnum \<Rightarrow> jsnum \<Rightarrow> bool" where
  "js_le NaN b = False"
| "js_le a NaN = False"
| "js_le (Num x) (Num y) = (x \<le> y)"
| "js_le NegInf b = True"
| "js_le a PosInf = True"
| "js_le a b = False"


text \<open>\<^verbatim>\<open>Math.max(a, b)\<close>: NaN when an argument is NaN.\<close>

fun Math_max :: "jsnum \<Rightarrow> jsnum \<Rightarrow> jsnum" where
  "Math_max NaN b = NaN"
| "Math_max a NaN = NaN"
| "Math_max a b = (if js_le a b then b else a)"

fun Math_ceil :: "jsnum \<Rightarrow> jsnum" where
  "Math_ceil (Num x) = Num (of_int \<lceil>x\<rceil>)"
| "Math_ceil a = a"

text \<open>\<^verbatim>\<open>Math.pow(2, z)\<close> for the loop counter \<open>z\<close>, a natural number.\<close>

definition Math_pow2 :: "nat \<Rightarrow> jsnum" where
  "Math_pow2 z = Num (2 ^ z)"

section \<open>Data model\<close>

text \<open>
  An extent is the array \<^verbatim>\<open>[minX, minY, maxX, maxY]\<close>, a coordinate \<^verbatim>\<open>[x, y]\<close>,
  a size \<^verbatim>\<open>[width, height]\<close>, a tile coordinate \<^verbatim>\<open>[z, x, y]\<close> (integers).
  A tile size argument is \<^verbatim>\<open>number|Size\<close>.
\<close>

type_synonym extent = "jsnum \<times> jsnum \<times> jsnum \<times> jsnum"
type_synonym coordinate = "jsnum \<times> jsnum"
type_synonym size = "jsnum \<times> jsnum"
type_synonym tilecoord = "int \<times> int \<times> int"

datatype size_like = Scalar jsnum | Pair jsnum jsnum

datatype Corner = BOTTOM_LEFT | BOTTOM_RIGHT | TOP_LEFT | TOP_RIGHT

datatype error = RangeError | TypeError

text \<open>
  The option object given to the \<^verbatim>\<open>TileGrid\<close> constructor and to \<^verbatim>\<open>createXYZ\<close>:
  every property may be absent (\<open>None\<close> is \<^verbatim>\<open>undefined\<close>).
\<close>

record options =
  o_extent :: "extent option"
  o_maxZoom :: "int option"
  o_minZoom :: "int option"
  o_origin :: "coordinate option"
  o_resolutions :: "jsnum list option"
  o_tileSize :: "size_like option"

definition empty_options :: options where
  "empty_options = \<lparr>o_extent = None, o_maxZoom = None, o_minZoom = None, o_origin = None,
     o_resolutions = None, o_tileSize = None\<rparr>"

text \<open>
  Modelled from the spec: the class \<^verbatim>\<open>TileGrid\<close> (\<^verbatim>\<open>./tilegrid/TileGrid.js\<close>) is not
  part of the source. A grid is "constructed from {extent, origin, resolutions,
  tileSize}" and owned by its caller: the instance keeps the configuration it was built
  from, and \<open>grid_id\<close> is its identity (one fresh number per \<^verbatim>\<open>new TileGrid\<close>).
\<close>

datatype TileGrid = TileGrid (grid_id: nat) (config: options)

text \<open>
  Modelled from the spec: a projection (\<^verbatim>\<open>./proj/Projection.js\<close>, not part of the
  source) "has an optional native extent, ... a meters-per-unit conversion factor; may
  lazily hold a reference to its default Grid".
\<close>

record Projection =
  p_extent :: "extent option"
  p_metersPerUnit :: jsnum
  p_defaultTileGrid :: "TileGrid option"

definition getExtent :: "Projection \<Rightarrow> extent option" where
  "getExtent p = p_extent p"

definition getMetersPerUnit :: "Projection \<Rightarrow> jsnum" where
  "getMetersPerUnit p = p_metersPerUnit p"

definition getDefaultTileGrid :: "Projection \<Rightarrow> TileGrid option" where
  "getDefaultTileGrid p = p_defaultTileGrid p"

text \<open>
  Projections are objects with an identity and a mutable slot: they live in a heap,
  addressed by a reference. \<open>registry\<close> is the projection registry of \<^verbatim>\<open>./proj.js\<close>
  (identifier to projection), \<open>next_grid\<close> the identity of the next grid instance.
\<close>

record state =
  registry :: "string \<rightharpoonup> nat"
  heap :: "nat \<Rightarrow> Projection"
  next_grid :: nat

definition setDefaultTileGrid :: "state \<Rightarrow> nat \<Rightarrow> TileGrid \<Rightarrow> state" where
  "setDefaultTileGrid s r g = s\<lparr>heap := (heap s)(r := (heap s r)\<lparr>p_defaultTileGrid := Some g\<rparr>)\<rparr>"

definition new_TileGrid :: "state \<Rightarrow> options \<Rightarrow> TileGrid \<times> state" where
  "new_TileGrid s opts = (TileGrid (next_grid s) opts, s\<lparr>next_grid := Suc (next_grid s)\<rparr>)"

datatype ProjectionLike = Code string | Instance nat

text \<open>
  Modelled from the spec: \<^verbatim>\<open>get\<close> of \<^verbatim>\<open>./proj.js\<close> (imported as \<^verbatim>\<open>getProjection\<close>)
  "resolves an identifier or pass-through instance to a projection object"; an
  identifier that the registry does not know resolves to \<^verbatim>\<open>null\<close>.
\<close>

fun getProjection :: "state \<Rightarrow> ProjectionLike \<Rightarrow> nat option" where
  "getProjection s (Instance r) = Some r"
| "getProjection s (Code c) = registry s c"

text \<open>
  What the module imports and the source does not define is a parameter: the two
  constants of \<^verbatim>\<open>./tilegrid/common.js\<close>, the entry \<^verbatim>\<open>METERS_PER_UNIT[Units.DEGREES]\<close>
  of \<^verbatim>\<open>./proj.js\<close>, and the two queries of a grid that \<^verbatim>\<open>wrapX\<close> calls (the centre
  of a tile, and the column and row of the tile of a point at a zoom level).
\<close>

record env =
  DEFAULT_MAX_ZOOM :: int
  DEFAULT_TILE_SIZE :: size_like
  METERS_PER_UNIT_DEGREES :: jsnum
  getTileCoordCenter :: "TileGrid \<Rightarrow> tilecoord \<Rightarrow> coordinate"
  tileXYForCoordAndZ :: "TileGrid \<Rightarrow> coordinate \<Rightarrow> int \<Rightarrow> int \<times> int"

text \<open>
  Modelled from the spec: the query \<^verbatim>\<open>getTileCoordForCoordAndZ\<close> of a grid
  (\<^verbatim>\<open>./tilegrid/TileGrid.js\<close>, not part of the source) gives "the tile coordinate at the
  same zoom level" for a point; which column and row is left to the grid.
\<close>

definition getTileCoordForCoordAndZ :: "env \<Rightarrow> TileGrid \<Rightarrow> coordinate \<Rightarrow> int \<Rightarrow> tilecoord" where
  "getTileCoordForCoordAndZ e g c z = (case tileXYForCoordAndZ e g c z of (x, y) \<Rightarrow> (z, x, y))"

subsection \<open>Extent and size utilities\<close>

text \<open>
  Modelled from the spec: \<^verbatim>\<open>./extent.js\<close> and \<^verbatim>\<open>./size.js\<close> are not part of the
  source. "Width = maxX - minX, height = maxY - minY"; a "closed containment test";
  "corner(extent, which)" for the four corners; "construct/update an extent from four
  scalars"; "normalize a scalar-or-pair into a (width, height) pair".
\<close>

fun getWidth :: "extent \<Rightarrow> jsnum" where
  "getWidth (x0, y0, x1, y1) = js_sub x1 x0"

fun getHeight :: "extent \<Rightarrow> jsnum" where
  "getHeight (x0, y0, x1, y1) = js_sub y1 y0"

fun containsCoordinate :: "extent \<Rightarrow> coordinate \<Rightarrow> bool" where
  "containsCoordinate (x0, y0, x1, y1) (x, y) =
     (js_le x0 x \<and> js_le x x1 \<and> js_le y0 y \<and> js_le y y1)"

fun getCorner :: "extent \<Rightarrow> Corner \<Rightarrow> coordinate" where
  "getCorner (x0, y0, x1, y1) BOTTOM_LEFT = (x0, y0)"
| "getCorner (x0, y0, x1, y1) BOTTOM_RIGHT = (x1, y0)"
| "getCorner (x0, y0, x1, y1) TOP_LEFT = (x0, y1)"
| "getCorner (x0, y0, x1, y1) TOP_RIGHT = (x1, y1)"

definition createOrUpdate :: "jsnum \<Rightarrow> jsnum \<Rightarrow> jsnum \<Rightarrow> jsnum \<Rightarrow> extent" where
  "createOrUpdate a b c d = (a, b, c, d)"

fun toSize :: "size_like \<Rightarrow> size" where
  "toSize (Scalar n) = (n, n)"
| "toSize (Pair w h) = (w, h)"

text \<open>
  \<^verbatim>\<open>assign(target, source)\<close> of \<^verbatim>\<open>./obj.js\<close> copies every property that the source
  has onto the target.
\<close>

definition override :: "'a option \<Rightarrow> 'a option \<Rightarrow> 'a option" where
  "override t s = (case s of None \<Rightarrow> t | Some v \<Rightarrow> Some v)"

definition assign :: "options \<Rightarrow> options \<Rightarrow> options" where
  "assign t s = \<lparr>o_extent = override (o_extent t) (o_extent s),
     o_maxZoom = override (o_maxZoom t) (o_maxZoom s),
     o_minZoom = override (o_minZoom t) (o_minZoom s),
     o_origin = override (o_origin t) (o_origin s),
     o_resolutions = override (o_resolutions t) (o_resolutions s),
     o_tileSize = override (o_tileSize t) (o_tileSize s)\<rparr>"

section \<open>The module \<^verbatim>\<open>ol/tilegrid\<close>\<close>

subsection \<open>resolutionsFromExtent\<close>

text \<open>
  \<^verbatim>\<open>new Array(length)\<close> raises a RangeError unless the length is an integer of
  \<open>0 .. 2^32 - 1\<close>. The loop then assigns the slots \<open>0, 1, ...\<close> in this order, each
  once: the model builds the array by appending slot \<open>z\<close> in step \<open>z\<close>.
\<close>

definition new_Array :: "int \<Rightarrow> error + nat" where
  "new_Array len = (if 0 \<le> len \<and> len < 2 ^ 32 then Inr (nat len) else Inl RangeError)"

function fill_resolutions :: "nat \<Rightarrow> nat \<Rightarrow> jsnum \<Rightarrow> jsnum list \<Rightarrow> jsnum list" where
  "fill_resolutions z len maxResolution resolutions =
     (if z < len
      then fill_resolutions (Suc z) len maxResolution
             (resolutions @ [js_div maxResolution (Math_pow2 z)])
      else resolutions)"
  by pat_completeness auto
termination
  by (relation "measure (\<lambda>(z, len, m, rs). len - z)") auto

definition resolutionsFromExtent ::
  "env \<Rightarrow> extent \<Rightarrow> int option \<Rightarrow> size_like option \<Rightarrow> error + jsnum list" where
  "resolutionsFromExtent e extent opt_maxZoom opt_tileSize =
     (let maxZoom = (case opt_maxZoom of Some m \<Rightarrow> m | None \<Rightarrow> DEFAULT_MAX_ZOOM e);
          height = getHeight extent;
          width = getWidth extent;
          tileSize = toSize (case opt_tileSize of Some t \<Rightarrow> t | None \<Rightarrow> DEFAULT_TILE_SIZE e);
          maxResolution = Math_max (js_div width (fst tileSize)) (js_div height (snd tileSize));
          len = maxZoom + 1
      in case new_Array len of
           Inl err \<Rightarrow> Inl err
         | Inr n \<Rightarrow> Inr (fill_resolutions 0 n maxResolution []))"

subsection \<open>extentFromProjection\<close>

text \<open>
  A projection reference that resolves to \<^verbatim>\<open>null\<close> makes \<^verbatim>\<open>projection.getExtent()\<close>
  raise a TypeError.
\<close>

definition extentFromProjection :: "env \<Rightarrow> state \<Rightarrow> ProjectionLike \<Rightarrow> error + extent" where
  "extentFromProjection e s projection =
     (case getProjection s projection of
        None \<Rightarrow> Inl TypeError
      | Some r \<Rightarrow>
          (case getExtent (heap s r) of
             Some extent \<Rightarrow> Inr extent
           | None \<Rightarrow>
               (let half = js_div (js_mul (Num 180) (METERS_PER_UNIT_DEGREES e))
                                  (getMetersPerUnit (heap s r))
                in Inr (createOrUpdate (js_neg half) (js_neg half) half half))))"

subsection \<open>createForExtent, createForProjection, createXYZ\<close>

definition createForExtent ::
  "env \<Rightarrow> state \<Rightarrow> extent \<Rightarrow> int option \<Rightarrow> size_like option \<Rightarrow> Corner option
     \<Rightarrow> error + TileGrid \<times> state" where
  "createForExtent e s extent opt_maxZoom opt_tileSize opt_corner =
     (let corner = (case opt_corner of Some c \<Rightarrow> c | None \<Rightarrow> TOP_LEFT)
      in case resolutionsFromExtent e extent opt_maxZoom opt_tileSize of
           Inl err \<Rightarrow> Inl err
         | Inr resolutions \<Rightarrow>
             Inr (new_TileGrid s
               \<lparr>o_extent = Some extent, o_maxZoom = None, o_minZoom = None,
                o_origin = Some (getCorner extent corner),
                o_resolutions = Some resolutions, o_tileSize = opt_tileSize\<rparr>))"

definition createForProjection ::
  "env \<Rightarrow> state \<Rightarrow> ProjectionLike \<Rightarrow> int option \<Rightarrow> size_like option \<Rightarrow> Corner option
     \<Rightarrow> error + TileGrid \<times> state" where
  "createForProjection e s projection opt_maxZoom opt_tileSize opt_corner =
     (case extentFromProjection e s projection of
        Inl err \<Rightarrow> Inl err
      | Inr extent \<Rightarrow> createForExtent e s extent opt_maxZoom opt_tileSize opt_corner)"

text \<open>
  In \<^verbatim>\<open>createXYZ\<close> the extent of a registered \<^verbatim>\<open>EPSG:3857\<close> may itself be
  \<^verbatim>\<open>null\<close>; \<^verbatim>\<open>getHeight\<close> then raises a TypeError.
\<close>

definition createXYZ :: "env \<Rightarrow> state \<Rightarrow> options option \<Rightarrow> error + TileGrid \<times> state" where
  "createXYZ e s opt_options =
     (let options = assign empty_options
            (case opt_options of Some opts \<Rightarrow> opts | None \<Rightarrow> empty_options)
      in case (case o_extent options of
                 Some ext \<Rightarrow> Inr options
               | None \<Rightarrow>
                   (case getProjection s (Code ''EPSG:3857'') of
                      None \<Rightarrow> Inl TypeError
                    | Some r \<Rightarrow> Inr (options\<lparr>o_extent := getExtent (heap s r)\<rparr>))) of
           Inl err \<Rightarrow> Inl err
         | Inr options \<Rightarrow>
             (case o_extent options of
                None \<Rightarrow> Inl TypeError
              | Some ext \<Rightarrow>
                  (case resolutionsFromExtent e ext (o_maxZoom options) (o_tileSize options) of
                     Inl err \<Rightarrow> Inl err
                   | Inr resolutions \<Rightarrow>
                       Inr (new_TileGrid s
                         (options\<lparr>o_resolutions := Some resolutions, o_maxZoom := None\<rparr>)))))"

subsection \<open>getForProjection\<close>

definition getForProjection :: "env \<Rightarrow> state \<Rightarrow> nat \<Rightarrow> error + TileGrid \<times> state" where
  "getForProjection e s projection =
     (case getDefaultTileGrid (heap s projection) of
        Some tileGrid \<Rightarrow> Inr (tileGrid, s)
      | None \<Rightarrow>
          (case createForProjection e s (Instance projection) None None None of
             Inl err \<Rightarrow> Inl err
           | Inr (tileGrid, s') \<Rightarrow> Inr (tileGrid, setDefaultTileGrid s' projection tileGrid)))"

subsection \<open>wrapX\<close>

definition wrapX :: "env \<Rightarrow> state \<Rightarrow> TileGrid \<Rightarrow> tilecoord \<Rightarrow> ProjectionLike \<Rightarrow> error + tilecoord" where
  "wrapX e s tileGrid tileCoord projection =
     (let z = fst tileCoord;
          center = getTileCoordCenter e tileGrid tileCoord
      in case extentFromProjection e s projection of
           Inl err \<Rightarrow> Inl err
         | Inr projectionExtent \<Rightarrow>
             if \<not> containsCoordinate projectionExtent center
             then (let worldWidth = getWidth projectionExtent;
                       worldsAway = Math_ceil
                         (js_div (js_sub (fst projectionExtent) (fst center)) worldWidth);
                       center' = (js_add (fst center) (js_mul worldWidth worldsAway), snd center)
                   in Inr (getTileCoordForCoordAndZ e tileGrid center' z))
             else Inr tileCoord)"

section \<open>Auxiliary notions\<close>

text \<open>
  The value of \<^verbatim>\<open>maxResolution\<close> in \<^verbatim>\<open>resolutionsFromExtent\<close>, and what it means
  for a sequence of numbers to decrease strictly (every entry \<^verbatim>\<open><\<close> its predecessor).
\<close>

definition maxResolution_of :: "env \<Rightarrow> extent \<Rightarrow> size_like option \<Rightarrow> jsnum" where
  "maxResolution_of e extent opt_tileSize =
     (let tileSize = toSize (case opt_tileSize of Some t \<Rightarrow> t | None \<Rightarrow> DEFAULT_TILE_SIZE e)
      in Math_max (js_div (getWidth extent) (fst tileSize)) (js_div (getHeight extent) (snd tileSize)))"



text \<open>
  The cached grid of every projection was made by an earlier \<^verbatim>\<open>new TileGrid\<close>: its
  identity lies below that of the next grid.
\<close>

definition wf_state :: "state \<Rightarrow> bool" where
  "wf_state s = (\<forall>r g. p_defaultTileGrid (heap s r) = Some g \<longrightarrow> grid_id g < next_grid s)"

subsection \<open>A sample configuration\<close>

text \<open>
  Concrete inputs on which the functions are evaluated below. The grid queries are those
  of a regular grid of square tiles of side 4 (origin \<open>(-3, -3)\<close>, resolution 1, tile
  size 4): tile \<open>(z, x, y)\<close> covers
  \<open>[4x - 3, 4x + 1) \<times> [4y - 3, 4y + 1)\<close> and has the centre \<open>(4x - 1, 4y - 1)\<close>.
  Projection 0 is registered as \<^verbatim>\<open>EPSG:3857\<close>; projections 2 and 3 declare the
  extents \<open>(0, 0, 6, 6)\<close> (one and a half tiles wide) and \<open>(-3, -3, 5, 5)\<close> (two tiles
  wide); every other projection declares no extent.
\<close>

definition sample_center :: "TileGrid \<Rightarrow> tilecoord \<Rightarrow> coordinate" where
  "sample_center g tc = (case tc of (z, x, y) \<Rightarrow> (Num (4 * of_int x - 1), Num (4 * of_int y - 1)))"

fun sample_tile_for :: "TileGrid \<Rightarrow> coordinate \<Rightarrow> int \<Rightarrow> int \<times> int" where
  "sample_tile_for g (Num a, Num b) z = (\<lfloor>(a + 3) / 4\<rfloor>, \<lfloor>(b + 3) / 4\<rfloor>)"
| "sample_tile_for g c z = (0, 0)"

definition sample_env :: env where
  "sample_env = \<lparr>DEFAULT_MAX_ZOOM = 42, DEFAULT_TILE_SIZE = Scalar (Num 256),
     METERS_PER_UNIT_DEGREES = Num 111195,
     getTileCoordCenter = sample_center, tileXYForCoordAndZ = sample_tile_for\<rparr>"

definition sample_projection :: "nat \<Rightarrow> Projection" where
  "sample_projection r =
     (if r = 0 then \<lparr>p_extent = Some (Num (- 20037508), Num (- 20037508), Num 20037508, Num 20037508),
                      p_metersPerUnit = Num 1, p_defaultTileGrid = None\<rparr>
      else if r = 2 then \<lparr>p_extent = Some (Num 0, Num 0, Num 6, Num 6),
                      p_metersPerUnit = Num 1, p_defaultTileGrid = None\<rparr>
      else if r = 3 then \<lparr>p_extent = Some (Num (- 3), Num (- 3), Num 5, Num 5),
                      p_metersPerUnit = Num 1, p_defaultTileGrid = None\<rparr>
      else \<lparr>p_extent = None, p_metersPerUnit = Num 5, p_defaultTileGrid = None\<rparr>)"

definition sample_state :: state where
  "sample_state = \<lparr>registry = [''EPSG:3857'' \<mapsto> 0], heap = sample_projection, next_grid = 0\<rparr>"

definition sample_grid :: TileGrid where
  "sample_grid = TileGrid 0 \<lparr>o_extent = None, o_maxZoom = None, o_minZoom = None,
     o_origin = Some (Num (- 3), Num (- 3)), o_resolutions = Some [Num 1],
     o_tileSize = Some (Scalar (Num 4))\<rparr>"


section \<open>The resolution pyramid\<close>

declare fill_resolutions.simps [simp del]

lemma fill_resolutions_eq:
  "z \<le> len \<Longrightarrow> fill_resolutions z len mr rs = rs @ map (\<lambda>k. js_div mr (Math_pow2 k)) [z..<len]"
proof (induction z len mr rs rule: fill_resolutions.induct)
  case (1 z len mr rs)
  show ?case
  proof (cases "z < len")
    case True
    then have "fill_resolutions z len mr rs = fill_resolutions (Suc z) len mr (rs @ [js_div mr (Math_pow2 z)])"
      by (subst fill_resolutions.simps) simp
    also have "\<dots> = (rs @ [js_div mr (Math_pow2 z)]) @ map (\<lambda>k. js_div mr (Math_pow2 k)) [Suc z..<len]"
      using True by (intro "1.IH") auto
    also have "\<dots> = rs @ map (\<lambda>k. js_div mr (Math_pow2 k)) [z..<len]"
      using True by (simp add: upt_conv_Cons)
    finally show ?thesis .
  next
    case False
    with "1.prems" have "z = len" by simp
    then show ?thesis by (subst fill_resolutions.simps) simp
  qed
qed

lemma resolutionsFromExtent_ok:
  assumes "0 \<le> m + 1" "m + 1 < 2 ^ 32"
  shows "resolutionsFromExtent e extent (Some m) ts =
           Inr (map (\<lambda>k. js_div (maxResolution_of e extent ts) (Math_pow2 k)) [0..<nat (m + 1)])"
  using assms
  by (simp add: resolutionsFromExtent_def new_Array_def maxResolution_of_def Let_def
      fill_resolutions_eq)

lemma resolutionsFromExtent_default:
  assumes "0 \<le> DEFAULT_MAX_ZOOM e + 1" "DEFAULT_MAX_ZOOM e + 1 < 2 ^ 32"
  shows "resolutionsFromExtent e extent None ts =
           Inr (map (\<lambda>k. js_div (maxResolution_of e extent ts) (Math_pow2 k))
                  [0..<nat (DEFAULT_MAX_ZOOM e + 1)])"
  using assms
  by (simp add: resolutionsFromExtent_def new_Array_def maxResolution_of_def Let_def
      fill_resolutions_eq)

lemma resolutionsFromExtent_error:
  assumes "m + 1 < 0 \<or> 2 ^ 32 \<le> m + 1"
  shows "resolutionsFromExtent e extent (Some m) ts = Inl RangeError"
  using assms
  by (auto simp add: resolutionsFromExtent_def new_Array_def Let_def)








lemma resolutionsFromExtent_length:
  assumes "resolutionsFromExtent e extent (Some m) ts = Inr rs"
  shows "0 \<le> m + 1 \<and> m + 1 < 2 ^ 32 \<and> int (length rs) = m + 1"
  using assms
  by (auto simp add: resolutionsFromExtent_def new_Array_def Let_def fill_resolutions_eq
      split: if_splits)






section \<open>The extent of a projection\<close>

lemma extentFromProjection_Instance:
  "\<exists>extent. extentFromProjection e s (Instance r) = Inr extent"
  by (simp add: extentFromProjection_def createOrUpdate_def Let_def split: option.splits)


text \<open>
  C4. For every projection that declares a native extent, \<^verbatim>\<open>extentFromProjection\<close>
  returns that extent unchanged; for every projection with no declared extent, it returns
  the square extent \<open>(-half, -half, half, half)\<close> where
  \<open>half = 180 * metersPerDegree / metersPerUnit(projection)\<close> (for finite numbers and a
  non-zero \<open>metersPerUnit\<close>, the real number of that value).
\<close>

theorem extentFromProjection_spec:
  fixes d u :: real
  assumes "getProjection s projection = Some r"
  shows "(p_extent (heap s r) = Some extent \<longrightarrow> extentFromProjection e s projection = Inr extent)
       \<and> (p_extent (heap s r) = None \<longrightarrow>
            (let half = js_div (js_mul (Num 180) (METERS_PER_UNIT_DEGREES e))
                               (p_metersPerUnit (heap s r))
             in extentFromProjection e s projection = Inr (js_neg half, js_neg half, half, half)))
       \<and> (p_extent (heap s r) = None \<and> METERS_PER_UNIT_DEGREES e = Num d
            \<and> p_metersPerUnit (heap s r) = Num u \<and> u \<noteq> 0 \<longrightarrow>
            extentFromProjection e s projection
              = Inr (Num (- (180 * d / u)), Num (- (180 * d / u)), Num (180 * d / u), Num (180 * d / u)))"
  using assms
  by (simp add: extentFromProjection_def getExtent_def getMetersPerUnit_def createOrUpdate_def
      Let_def)

theorem extentFromProjection_spec_witness:
  "extentFromProjection sample_env sample_state (Code ''EPSG:3857'')
     = Inr (Num (- 20037508), Num (- 20037508), Num 20037508, Num 20037508)
   \<and> extentFromProjection sample_env sample_state (Instance 7)
     = Inr (Num (- (180 * 111195 / 5)), Num (- (180 * 111195 / 5)),
            Num (180 * 111195 / 5), Num (180 * 111195 / 5))"
proof -
  have a: "getProjection sample_state (Code ''EPSG:3857'') = Some 0"
    by (simp add: sample_state_def)
  have a': "p_extent (heap sample_state 0)
      = Some (Num (- 20037508), Num (- 20037508), Num 20037508, Num 20037508)"
    by (simp add: sample_state_def sample_projection_def)
  have b: "getProjection sample_state (Instance 7) = Some 7"
    by simp
  have b': "p_extent (heap sample_state 7) = None \<and> METERS_PER_UNIT_DEGREES sample_env = Num 111195
      \<and> p_metersPerUnit (heap sample_state 7) = Num 5 \<and> (5::real) \<noteq> 0"
    by (simp add: sample_state_def sample_projection_def sample_env_def)
  from extentFromProjection_spec [OF a, of _ sample_env] a'
  have "extentFromProjection sample_env sample_state (Code ''EPSG:3857'')
     = Inr (Num (- 20037508), Num (- 20037508), Num 20037508, Num 20037508)"
    by blast
  moreover from extentFromProjection_spec [OF b, of _ sample_env 111195 5] b'
  have "extentFromProjection sample_env sample_state (Instance 7)
     = Inr (Num (- (180 * 111195 / 5)), Num (- (180 * 111195 / 5)),
            Num (180 * 111195 / 5), Num (180 * 111195 / 5))"
    by blast
  ultimately show ?thesis by blast
qed


section \<open>The grid factories\<close>

text \<open>
  C5. \<^verbatim>\<open>createForExtent(E, m, ts, corner)\<close> returns a grid whenever
  \<^verbatim>\<open>resolutionsFromExtent(E, m, ts)\<close> returns (as it does for every maxZoom
  \<open>m \<ge> 0\<close> with \<open>m + 1 < 2^32\<close>), and passes its error on otherwise. The grid's extent is \<open>E\<close>, its
  origin is the selected corner of \<open>E\<close>, its resolutions are those of
  \<^verbatim>\<open>resolutionsFromExtent(E, m, ts)\<close>; an omitted corner stands for \<open>TOP_LEFT\<close>.
\<close>

theorem createForExtent_spec:
  "(\<forall>rs. resolutionsFromExtent e extent opt_maxZoom opt_tileSize = Inr rs \<longrightarrow>
      (\<exists>g s'. createForExtent e s extent opt_maxZoom opt_tileSize opt_corner = Inr (g, s')
         \<and> o_extent (config g) = Some extent
         \<and> o_origin (config g)
             = Some (getCorner extent (case opt_corner of Some c \<Rightarrow> c | None \<Rightarrow> TOP_LEFT))
         \<and> o_resolutions (config g) = Some rs
         \<and> o_tileSize (config g) = opt_tileSize))
   \<and> (\<forall>err. resolutionsFromExtent e extent opt_maxZoom opt_tileSize = Inl err \<longrightarrow>
        createForExtent e s extent opt_maxZoom opt_tileSize opt_corner = Inl err)
   \<and> createForExtent e s extent opt_maxZoom opt_tileSize None
       = createForExtent e s extent opt_maxZoom opt_tileSize (Some TOP_LEFT)
   \<and> (\<forall>m::nat. m < 4294967295 \<longrightarrow>
        (\<exists>g s'. createForExtent e s extent (Some (int m)) opt_tileSize opt_corner = Inr (g, s')))"
  by (simp add: createForExtent_def new_TileGrid_def Let_def resolutionsFromExtent_ok)

theorem createForExtent_spec_witness:
  "\<exists>g s'. createForExtent sample_env sample_state (Num 0, Num 0, Num 512, Num 256) (Some 1)
              (Some (Scalar (Num 256))) None = Inr (g, s')
     \<and> o_extent (config g) = Some (Num 0, Num 0, Num 512, Num 256)
     \<and> o_origin (config g) = Some (Num 0, Num 256)
     \<and> o_resolutions (config g) = Some [Num 2, Num 1]"
proof -
  have r: "resolutionsFromExtent sample_env (Num 0, Num 0, Num 512, Num 256) (Some 1)
             (Some (Scalar (Num 256))) = Inr [Num 2, Num 1]"
    by (simp add: resolutionsFromExtent_def new_Array_def Let_def fill_resolutions_eq js_sub_def
        Math_pow2_def upt_conv_Cons)
  from createForExtent_spec [of sample_env "(Num 0, Num 0, Num 512, Num 256)" "Some 1"
      "Some (Scalar (Num 256))" sample_state None] r
  have "\<exists>g s'. createForExtent sample_env sample_state (Num 0, Num 0, Num 512, Num 256) (Some 1)
              (Some (Scalar (Num 256))) None = Inr (g, s')
     \<and> o_extent (config g) = Some (Num 0, Num 0, Num 512, Num 256)
     \<and> o_origin (config g)
         = Some (getCorner (Num 0, Num 0, Num 512, Num 256) (case None of Some c \<Rightarrow> c | None \<Rightarrow> TOP_LEFT))
     \<and> o_resolutions (config g) = Some [Num 2, Num 1]
     \<and> o_tileSize (config g) = Some (Scalar (Num 256))"
    by blast
  then show ?thesis by auto
qed


text \<open>
  C8. For every projection \<open>p\<close> whose extent is resolved,
  \<^verbatim>\<open>createForProjection(p, m, ts, c)\<close> returns what
  \<^verbatim>\<open>createForExtent(extentFromProjection(p), m, ts, c)\<close> returns; when the corner
  is omitted, the origin of the grid is the top-left corner of the resolved extent, which
  is not its bottom-left corner as soon as the extent has a height.
\<close>

theorem createForProjection_spec:
  fixes y0 y1 :: real
  assumes "extentFromProjection e s projection = Inr extent"
  shows "createForProjection e s projection opt_maxZoom opt_tileSize opt_corner
           = createForExtent e s extent opt_maxZoom opt_tileSize opt_corner
       \<and> (\<forall>g s'. createForProjection e s projection opt_maxZoom opt_tileSize None = Inr (g, s') \<longrightarrow>
            o_origin (config g) = Some (getCorner extent TOP_LEFT))
       \<and> (extent = (x0, Num y0, x1, Num y1) \<and> y0 \<noteq> y1 \<longrightarrow>
            getCorner extent TOP_LEFT \<noteq> getCorner extent BOTTOM_LEFT)"
  using assms
  by (auto simp add: createForProjection_def createForExtent_def new_TileGrid_def Let_def
      split: sum.splits)

theorem createForProjection_spec_witness:
  "createForProjection sample_env sample_state (Instance 2) (Some 1) (Some (Scalar (Num 3))) None
     = createForExtent sample_env sample_state (Num 0, Num 0, Num 6, Num 6) (Some 1)
         (Some (Scalar (Num 3))) None
   \<and> (\<exists>g s'. createForProjection sample_env sample_state (Instance 2) (Some 1)
                (Some (Scalar (Num 3))) None = Inr (g, s')
           \<and> o_origin (config g) = Some (Num 0, Num 6))
   \<and> getCorner (Num 0, Num 0, Num 6, Num 6) TOP_LEFT
       \<noteq> getCorner (Num 0, Num 0, Num 6, Num 6) BOTTOM_LEFT"
proof -
  have x: "extentFromProjection sample_env sample_state (Instance 2)
             = Inr (Num 0, Num 0, Num 6, Num 6)"
    by (simp add: extentFromProjection_def getExtent_def sample_state_def sample_projection_def)
  note inst = createForProjection_spec [OF x, of "Some 1" "Some (Scalar (Num 3))" None "Num 0" 0 "Num 6" 6]
  have ex: "\<exists>g s'. createForProjection sample_env sample_state (Instance 2) (Some 1)
                (Some (Scalar (Num 3))) None = Inr (g, s')"
    unfolding createForProjection_def x
    by (simp add: createForExtent_def resolutionsFromExtent_def new_Array_def new_TileGrid_def
        Let_def)
  with inst show ?thesis by auto
qed

text \<open>
  C7. With the projection \<^verbatim>\<open>EPSG:3857\<close> registered and declaring an extent, and
  \<open>DEFAULT_MAX_ZOOM\<close> a zoom level (\<open>0 \<le> DEFAULT_MAX_ZOOM\<close>,
  \<open>DEFAULT_MAX_ZOOM + 1 < 2^32\<close>), \<^verbatim>\<open>createXYZ\<close> called with no options or with an
  empty options object returns a grid whose extent is that projection's extent and whose
  resolutions have the length \<open>DEFAULT_MAX_ZOOM + 1\<close>. Whatever the options, the
  configuration of the grid that \<^verbatim>\<open>createXYZ\<close> returns has no \<open>maxZoom\<close>: the option
  is used for the length of the resolutions and then deleted.
\<close>

theorem createXYZ_spec:
  assumes "registry s ''EPSG:3857'' = Some r" "p_extent (heap s r) = Some extent"
    and "0 \<le> DEFAULT_MAX_ZOOM e" "DEFAULT_MAX_ZOOM e + 1 < 2 ^ 32"
    and "opt_options \<in> {None, Some empty_options}"
  shows "(\<exists>g s' rs. createXYZ e s opt_options = Inr (g, s')
            \<and> o_extent (config g) = Some extent
            \<and> o_resolutions (config g) = Some rs
            \<and> int (length rs) = DEFAULT_MAX_ZOOM e + 1
            \<and> o_maxZoom (config g) = None)
       \<and> (\<forall>opts g s'. createXYZ e s opts = Inr (g, s') \<longrightarrow> o_maxZoom (config g) = None)
       \<and> (\<forall>opts ext m. o_extent opts = Some ext \<and> o_maxZoom opts = Some (int m) \<and> m < 4294967295 \<longrightarrow>
            (\<exists>g s' rs. createXYZ e s (Some opts) = Inr (g, s')
               \<and> o_resolutions (config g) = Some rs \<and> length rs = m + 1
               \<and> o_maxZoom (config g) = None))"
proof (intro conjI allI impI)
  have opts: "assign empty_options (case opt_options of Some opts \<Rightarrow> opts | None \<Rightarrow> empty_options)
      = empty_options"
    using assms(5) by (auto simp add: assign_def empty_options_def override_def)
  have ok: "0 \<le> DEFAULT_MAX_ZOOM e + 1"
    using assms(3) by simp
  show "\<exists>g s' rs. createXYZ e s opt_options = Inr (g, s')
            \<and> o_extent (config g) = Some extent
            \<and> o_resolutions (config g) = Some rs
            \<and> int (length rs) = DEFAULT_MAX_ZOOM e + 1
            \<and> o_maxZoom (config g) = None"
    unfolding createXYZ_def opts Let_def
    using assms(1,2) ok assms(4)
    by (simp add: empty_options_def getExtent_def new_TileGrid_def resolutionsFromExtent_default)
next
  fix opts g s'
  assume "createXYZ e s opts = Inr (g, s')"
  then show "o_maxZoom (config g) = None"
    by (auto simp add: createXYZ_def Let_def new_TileGrid_def split: option.splits sum.splits)
next
  fix opts :: options and ext and m :: nat
  assume a: "o_extent opts = Some ext \<and> o_maxZoom opts = Some (int m) \<and> m < 4294967295"
  then have "o_extent (assign empty_options opts) = Some ext"
    "o_maxZoom (assign empty_options opts) = Some (int m)"
    by (simp_all add: assign_def override_def)
  moreover have "0 \<le> int m + 1" "int m + 1 < 2 ^ 32"
    using a by simp_all
  ultimately show "\<exists>g s' rs. createXYZ e s (Some opts) = Inr (g, s')
               \<and> o_resolutions (config g) = Some rs \<and> length rs = m + 1
               \<and> o_maxZoom (config g) = None"
    by (simp add: createXYZ_def Let_def new_TileGrid_def resolutionsFromExtent_ok nat_add_distrib)
qed

theorem createXYZ_spec_witness:
  "\<exists>g s' rs. createXYZ sample_env sample_state None = Inr (g, s')
      \<and> o_extent (config g) = Some (Num (- 20037508), Num (- 20037508), Num 20037508, Num 20037508)
      \<and> o_resolutions (config g) = Some rs
      \<and> int (length rs) = 42 + 1
      \<and> o_maxZoom (config g) = None"
proof -
  have h: "registry sample_state ''EPSG:3857'' = Some 0"
    "p_extent (heap sample_state 0)
       = Some (Num (- 20037508), Num (- 20037508), Num 20037508, Num 20037508)"
    "0 \<le> DEFAULT_MAX_ZOOM sample_env" "DEFAULT_MAX_ZOOM sample_env + 1 < 2 ^ 32"
    "None \<in> {None, Some empty_options}"
    by (simp_all add: sample_state_def sample_projection_def sample_env_def)
  have d: "DEFAULT_MAX_ZOOM sample_env = 42"
    by (simp add: sample_env_def)
  from createXYZ_spec [OF h] show ?thesis
    unfolding d by blast
qed


section \<open>The default grid of a projection\<close>

lemma createForProjection_default:
  assumes "0 \<le> DEFAULT_MAX_ZOOM e" "DEFAULT_MAX_ZOOM e + 1 < 2 ^ 32"
  shows "\<exists>opts. createForProjection e s (Instance r) None None None
           = Inr (TileGrid (next_grid s) opts, s\<lparr>next_grid := Suc (next_grid s)\<rparr>)"
proof -
  obtain extent where "extentFromProjection e s (Instance r) = Inr extent"
    using extentFromProjection_Instance by blast
  moreover have "0 \<le> DEFAULT_MAX_ZOOM e + 1"
    using assms(1) by simp
  ultimately show ?thesis
    using assms(2)
    by (simp add: createForProjection_def createForExtent_def new_TileGrid_def Let_def
        resolutionsFromExtent_default)
qed

lemma getForProjection_cached:
  assumes "p_defaultTileGrid (heap s r) = Some g"
  shows "getForProjection e s r = Inr (g, s)"
  using assms by (simp add: getForProjection_def getDefaultTileGrid_def)

lemma getForProjection_fresh:
  assumes "p_defaultTileGrid (heap s r) = None"
    and "createForProjection e s (Instance r) None None None = Inr (g, s')"
  shows "getForProjection e s r = Inr (g, setDefaultTileGrid s' r g)"
  using assms by (simp add: getForProjection_def getDefaultTileGrid_def)

lemma getForProjection_total:
  assumes "0 \<le> DEFAULT_MAX_ZOOM e" "DEFAULT_MAX_ZOOM e + 1 < 2 ^ 32" "wf_state s"
  shows "\<exists>g s'. getForProjection e s r = Inr (g, s')
           \<and> p_defaultTileGrid (heap s' r) = Some g
           \<and> (\<forall>q. q \<noteq> r \<longrightarrow> heap s' q = heap s q)
           \<and> wf_state s' \<and> grid_id g < next_grid s' \<and> next_grid s \<le> next_grid s'
           \<and> registry s' = registry s"
proof (cases "p_defaultTileGrid (heap s r)")
  case (Some g)
  then have "getForProjection e s r = Inr (g, s)"
    by (rule getForProjection_cached)
  moreover have "grid_id g < next_grid s"
    using Some assms(3) by (simp add: wf_state_def)
  ultimately show ?thesis
    using Some assms(3) by simp
next
  case None
  obtain opts where c: "createForProjection e s (Instance r) None None None
      = Inr (TileGrid (next_grid s) opts, s\<lparr>next_grid := Suc (next_grid s)\<rparr>)"
    using createForProjection_default [OF assms(1,2)] by blast
  define g where "g = TileGrid (next_grid s) opts"
  define s' where "s' = setDefaultTileGrid (s\<lparr>next_grid := Suc (next_grid s)\<rparr>) r g"
  have "getForProjection e s r = Inr (g, s')"
    using getForProjection_fresh [OF None c] by (simp add: g_def s'_def)
  moreover have "p_defaultTileGrid (heap s' r) = Some g"
    by (simp add: s'_def setDefaultTileGrid_def)
  moreover have "\<forall>q. q \<noteq> r \<longrightarrow> heap s' q = heap s q"
    by (simp add: s'_def setDefaultTileGrid_def)
  moreover have "wf_state s'"
    using assms(3) by (auto simp add: wf_state_def s'_def setDefaultTileGrid_def g_def less_Suc_eq)
  moreover have "grid_id g < next_grid s'" "next_grid s \<le> next_grid s'" "registry s' = registry s"
    by (simp_all add: s'_def setDefaultTileGrid_def g_def)
  ultimately show ?thesis by blast
qed


text \<open>
  C6. \<^verbatim>\<open>getForProjection\<close> called on a projection \<open>p\<close> returns a grid \<open>g1\<close> and leaves
  it in the slot of \<open>p\<close>; called again on \<open>p\<close>, it returns the same instance \<open>g1\<close> and
  changes nothing (no grid is made). Called then on another projection \<open>q\<close> that holds
  no grid yet, it returns the grid that \<^verbatim>\<open>createForProjection\<close> makes for \<open>q\<close>, an
  instance other than \<open>g1\<close>, and stores it on \<open>q\<close>; \<open>p\<close> still holds \<open>g1\<close>, and
  both projections keep answering with their one grid.
\<close>

theorem getForProjection_spec:
  assumes "0 \<le> DEFAULT_MAX_ZOOM e" "DEFAULT_MAX_ZOOM e + 1 < 2 ^ 32" "wf_state s"
    and "p \<noteq> q" "p_defaultTileGrid (heap s q) = None"
  shows "\<exists>g1 s1 g2 s2 s2'.
           getForProjection e s p = Inr (g1, s1)
         \<and> p_defaultTileGrid (heap s1 p) = Some g1
         \<and> getForProjection e s1 p = Inr (g1, s1)
         \<and> getForProjection e s1 q = Inr (g2, s2)
         \<and> createForProjection e s1 (Instance q) None None None = Inr (g2, s2')
         \<and> grid_id g2 \<noteq> grid_id g1
         \<and> p_defaultTileGrid (heap s2 q) = Some g2
         \<and> p_defaultTileGrid (heap s2 p) = Some g1
         \<and> getForProjection e s2 p = Inr (g1, s2)
         \<and> getForProjection e s2 q = Inr (g2, s2)"
proof -
  obtain g1 s1 where 1: "getForProjection e s p = Inr (g1, s1)"
    "p_defaultTileGrid (heap s1 p) = Some g1" "\<forall>r. r \<noteq> p \<longrightarrow> heap s1 r = heap s r"
    "wf_state s1" "grid_id g1 < next_grid s1"
    using getForProjection_total [OF assms(1,2,3), of p] by blast
  have again: "getForProjection e s1 p = Inr (g1, s1)"
    using 1(2) by (rule getForProjection_cached)
  have qnone: "p_defaultTileGrid (heap s1 q) = None"
    using 1(3) assms(4,5) by simp
  obtain opts where c: "createForProjection e s1 (Instance q) None None None
      = Inr (TileGrid (next_grid s1) opts, s1\<lparr>next_grid := Suc (next_grid s1)\<rparr>)"
    using createForProjection_default [OF assms(1,2)] by blast
  define g2 where "g2 = TileGrid (next_grid s1) opts"
  define s2' where "s2' = s1\<lparr>next_grid := Suc (next_grid s1)\<rparr>"
  define s2 where "s2 = setDefaultTileGrid s2' q g2"
  have c': "createForProjection e s1 (Instance q) None None None = Inr (g2, s2')"
    using c by (simp add: g2_def s2'_def)
  have 2: "getForProjection e s1 q = Inr (g2, s2)"
    using getForProjection_fresh [OF qnone c'] by (simp add: s2_def)
  have diff: "grid_id g2 \<noteq> grid_id g1"
    using 1(5) by (simp add: g2_def)
  have q2: "p_defaultTileGrid (heap s2 q) = Some g2"
    by (simp add: s2_def setDefaultTileGrid_def)
  have p2: "p_defaultTileGrid (heap s2 p) = Some g1"
    using 1(2) assms(4) by (simp add: s2_def s2'_def setDefaultTileGrid_def)
  have "getForProjection e s2 p = Inr (g1, s2)" "getForProjection e s2 q = Inr (g2, s2)"
    using p2 q2 by (simp_all add: getForProjection_cached)
  with 1(1,2) again 2 c' diff q2 p2 show ?thesis by blast
qed

theorem getForProjection_spec_witness:
  "\<exists>g1 s1 g2 s2 s2'.
           getForProjection sample_env sample_state 0 = Inr (g1, s1)
         \<and> p_defaultTileGrid (heap s1 0) = Some g1
         \<and> getForProjection sample_env s1 0 = Inr (g1, s1)
         \<and> getForProjection sample_env s1 2 = Inr (g2, s2)
         \<and> createForProjection sample_env s1 (Instance 2) None None None = Inr (g2, s2')
         \<and> grid_id g2 \<noteq> grid_id g1
         \<and> p_defaultTileGrid (heap s2 2) = Some g2
         \<and> p_defaultTileGrid (heap s2 0) = Some g1
         \<and> getForProjection sample_env s2 0 = Inr (g1, s2)
         \<and> getForProjection sample_env s2 2 = Inr (g2, s2)"
proof -
  have h: "0 \<le> DEFAULT_MAX_ZOOM sample_env" "DEFAULT_MAX_ZOOM sample_env + 1 < 2 ^ 32"
    "wf_state sample_state" "(0::nat) \<noteq> 2" "p_defaultTileGrid (heap sample_state 2) = None"
    by (simp_all add: sample_env_def sample_state_def sample_projection_def wf_state_def)
  from getForProjection_spec [OF h] show ?thesis .
qed

section \<open>Wrapping a tile coordinate\<close>

lemma sample_queries:
  "getTileCoordCenter sample_env = sample_center"
  "getTileCoordForCoordAndZ sample_env g c z = (case sample_tile_for g c z of (x, y) \<Rightarrow> (z, x, y))"
  by (simp_all add: sample_env_def getTileCoordForCoordAndZ_def)

lemma sample_extents:
  "extentFromProjection sample_env sample_state (Instance 2) = Inr (Num 0, Num 0, Num 6, Num 6)"
  "extentFromProjection sample_env sample_state (Instance 3) = Inr (Num (- 3), Num (- 3), Num 5, Num 5)"
  by (simp_all add: extentFromProjection_def getExtent_def sample_state_def sample_projection_def)


text \<open>
  C3. For every grid, every projection whose extent is resolved and every tile coordinate
  whose centre (as the grid's \<^verbatim>\<open>getTileCoordCenter\<close> reports it) lies inside that extent
  under the closed containment test, \<^verbatim>\<open>wrapX\<close> returns the input tile coordinate
  itself, unchanged.
\<close>

theorem wrapX_inside:
  assumes "extentFromProjection e s projection = Inr extent"
    and "containsCoordinate extent (getTileCoordCenter e tileGrid tileCoord)"
  shows "wrapX e s tileGrid tileCoord projection = Inr tileCoord"
  using assms by (simp add: wrapX_def Let_def)

theorem wrapX_inside_witness:
  "containsCoordinate (Num (- 3), Num (- 3), Num 5, Num 5)
     (getTileCoordCenter sample_env sample_grid (0, 0, 1))
   \<and> wrapX sample_env sample_state sample_grid (0, 0, 1) (Instance 3) = Inr (0, 0, 1)"
proof -
  have c: "containsCoordinate (Num (- 3), Num (- 3), Num 5, Num 5)
     (getTileCoordCenter sample_env sample_grid (0, 0, 1))"
    by (simp add: sample_queries sample_center_def)
  from wrapX_inside [OF sample_extents(2) c] c show ?thesis by simp
qed










end
